theory Spec2Isabelle
  imports Main "HOL-Library.Sublist"
begin

section \<open>Data model of the status page (mod.ts)\<close>

text \<open>
  A JavaScript string is modelled as a \<^typ>\<open>string\<close>, a list of 8-bit characters;
  text outside ASCII stands as the bytes of its UTF-8 encoding. The renderer only
  concatenates strings and tests one ASCII prefix, and both commute with the encoding.
  The three keys of the \<open>Status\<close> object are the constructors of \<open>StatusType\<close>; a
  value outside them is excluded by the type, as the TypeScript declaration excludes it.
\<close>

datatype StatusType = noissue | incident | outage

record Service =
  name :: string
  status :: StatusType

record Environment =
  name :: string
  services :: "Service list"

text \<open>The optional field \<open>customCSS?\<close> is \<open>None\<close> when the caller leaves it out.\<close>

record StatusPageConfig =
  title :: string
  logo :: string
  currentStatus :: StatusType
  environments :: "Environment list"
  customCSS :: "string option"

subsection \<open>The two lookup tables\<close>

fun ICONS :: "StatusType \<Rightarrow> string" where
  \<open>ICONS noissue = ''<svg viewBox="0 0 20 20" fill="none" xmlns="http://www.w3.org/2000/svg"><path fill-rule="evenodd" clip-rule="evenodd" d="M10 20C15.5229 20 20 15.5228 20 10C20 4.47715 15.5229 0 10 0C4.47716 0 0 4.47715 0 10C0 15.5228 4.47716 20 10 20ZM6 10L9 13L14 8L13 7L9 11L7 9L6 10Z" fill="#6FBA97"/></svg>''\<close>
| \<open>ICONS incident = ''<svg viewBox="0 0 20 18" fill="none" xmlns="http://www.w3.org/2000/svg"><path fill-rule="evenodd" clip-rule="evenodd" d="M1.77512 18H10H18.2249C19.4574 18 20.2271 16.665 19.6096 15.5983L11.3847 1.39172C10.7684 0.327268 9.23158 0.327264 8.61532 1.39172L0.390434 15.5983C-0.22711 16.665 0.542584 18 1.77512 18ZM9 6H11V11H9V6ZM11 13H9V15H11V13Z" fill="#F2C661"/></svg>''\<close>
| \<open>ICONS outage = ''<svg viewBox="0 0 20 20" fill="none" xmlns="http://www.w3.org/2000/svg"><path fill-rule="evenodd" clip-rule="evenodd" d="M10 20C15.5228 20 20 15.5228 20 10C20 4.47715 15.5228 0 10 0C4.47715 0 0 4.47715 0 10C0 15.5228 4.47715 20 10 20ZM5.5 9.5V10.5H14.5V9.5H5.5Z" fill="#D83D4E"/></svg>''\<close>

fun TITLES :: "StatusType \<Rightarrow> string" where
  "TITLES noissue = ''All Systems Operational''"
| "TITLES incident = ''Some Systems Are Experiencing Issues''"
| "TITLES outage = ''Service Disruption Ongoing''"

subsection \<open>The clock\<close>

text \<open>
  \<open>getCurrentTime\<close> reads the wall clock through \<open>new Date()\<close>. The reading is an
  explicit argument here: the local hour and minute, and the result of
  \<open>getTimezoneOffset()\<close> (minutes between UTC and local time).
\<close>

record Date =
  hours :: nat
  minutes :: nat
  timezoneOffset :: int

definition twoDigits :: "nat \<Rightarrow> string" where
  "twoDigits n = [''0123456789'' ! ((n div 10) mod 10), ''0123456789'' ! (n mod 10)]"

text \<open>
  Modelled from the spec: the formatting done by the JavaScript runtime in
  \<open>d.toLocaleTimeString('en-GB', { hour: 'numeric', minute: 'numeric' })\<close> is not part
  of the repository; the spec gives its result as \<open>HH:MM\<close>, the two-digit hour of the
  24-hour clock, a colon and the two-digit minute, and so does the doc comment of
  \<open>getCurrentTime\<close> (the format \<open>HH:MM GMT/BST\<close>).
\<close>

definition toLocaleTimeString :: "Date \<Rightarrow> string" where
  "toLocaleTimeString d = twoDigits (hours d) @ '':'' @ twoDigits (minutes d)"

definition getCurrentTime :: "Date \<Rightarrow> string" where
  "getCurrentTime d =
    (let time = toLocaleTimeString d;
         timezone = (if timezoneOffset d = 0 then ''GMT'' else ''BST'')
     in time @ '' '' @ timezone)"

subsection \<open>The renderer\<close>

text \<open>
  A template literal is the concatenation of its text and its interpolated values;
  \<open>xs.map(f).join('')\<close> is \<open>concat (map f xs)\<close>. The text between two interpolations
  is copied from the source character for character, line breaks and indentation
  included.
\<close>

definition serviceRow :: "Service \<Rightarrow> string" where
  \<open>serviceRow service = ''
    <div class="row">
      <div class="cell">
        <div class="service-name">'' @ Service.name service @ ''</div>
        <div class="status">'' @ TITLES (status service) @ ''</div>
      </div>
      <div class="cell">
        <div class="icon">'' @ ICONS (status service) @ ''</div>
      </div>
    </div>
  ''\<close>

definition generateServiceRows :: "Service list \<Rightarrow> string" where
  "generateServiceRows svcs = concat (map serviceRow svcs)"

definition getIcon :: "Service list \<Rightarrow> string" where
  "getIcon svcs =
    (if list_ex (\<lambda>s. status s = outage) svcs then ICONS outage
     else if list_ex (\<lambda>s. status s = incident) svcs then ICONS incident
     else ICONS noissue)"

definition environmentTable :: "nat \<Rightarrow> Environment \<Rightarrow> string" where
  \<open>environmentTable index env = ''
    <details '' @ (if index = 0 then ''open'' else '''') @ '' class="table">
      <summary class="row">
        <div class="cell">'' @ Environment.name env @ ''</div>
        <div class="cell">
          <div class="icon">'' @ getIcon (Environment.services env) @ ''</div>
        </div>
      </summary>
      '' @ generateServiceRows (Environment.services env) @ ''
    </details>
  ''\<close>

definition generateEnvironmentTables :: "Environment list \<Rightarrow> string" where
  "generateEnvironmentTables envs =
    concat (map (\<lambda>(index, env). environmentTable index env) (enumerate 0 envs))"

text \<open>The rules of the page's style block that come before the custom styles.\<close>

definition builtinStyles :: string where
  \<open>builtinStyles = ''    :root {
      font-family: Inter, sans-serif;
      font-feature-settings: 'liga'1, 'calt'1;
    }

    @supports (font-variation-settings: normal) {
      :root {
        font-family: InterVariable, sans-serif;
      }
    }

    body {
      margin: 0;
      min-height: 100vh;
      
      nav {
        position: sticky;
        top: 0;
        z-index: 10;
        padding: 1rem;
        background: white;
        justify-content: space-between;
        align-items: center;
        display: flex;
        
        .links {
          display: flex;
          font-size: 0.9em;
          gap: 0.8em;
          
          a {
            text-decoration: none;
          }
        }
      }
    }

    .header {
      padding: 3rem 1.6rem;
      text-align: center;
      flex-direction: column;
      justify-content: center;
      align-items: center;
      display: flex;
      
      .icon {
        svg {
          width: 3rem;
          display: block;
        }
      }

      h1 {
        margin: 2rem 0 1rem;
        font-size: 1rem;
        line-height: 1.6;
        font-weight: 600;
        max-width: 300px;
      }

      p {
        margin: 0;
        font-size: 0.9em;
        color: gray;
      }
    }
    
    .table {
      margin: auto;
      font-size: 0.9em;
      max-width: 840px;
      flex-direction: column;
      display: flex;
      
      .icon {
        width: 24px;
        align-items: center;
        display: flex;
      }

      .row {
        border-bottom: 1px solid rgba(0,0,0,0.1);
        display: flex;

        .cell {
          gap: 0.6em;
          padding: 1rem 1.1rem;
          flex-direction: unset;
          align-items: center;
          display: flex;
          
          &:first-child {
            justify-content: unset;
            flex-grow: 1;
          }
        }
        &:not(:has(.icon)) {
          .cell {
            font-weight: 600;
          }
        }
      }
    }

    div.table {
      position: sticky;
      top: 46px;
      background: white;
      z-index: 10;

      .cell:not(:has(.icon)) {
        font-weight: 600;
      }
    }

    details.table {
      &:last-of-type {
        padding-bottom: 10rem;

        .row:last-child {
          border-bottom: 0;
        }
      }

      .row {
        border-bottom: 1px solid rgba(0,0,0,0.1);

        .cell {
          &:first-child {
            flex-direction: column;
            justify-content: center;
            align-items: unset;
          }

          &:not(:first-child) {
            justify-content: flex-end;
            font-size: 0.9em;
            color: gray;
          }

          .status {
            font-size: 0.9em;
            font-weight: 400;
            color: gray;
          }
        }
      }

      summary.row {
        font-weight: 600;
        cursor: pointer;

        .cell:first-child {
          flex-direction: row;
          justify-content: unset;
          align-items: center;
          gap: 1em;

          &::before {
            content: '' @ [CHR 0x27, CHR 0x27] @ '';
            width: 6px;
            height: 6px;
            border: solid currentColor;
            border-width: 2px 2px 0 0;
            transform: rotate(45deg);
          }
        }
      }

      &[open] summary.row .cell:first-child::before {
        margin-top: -3px;
        border-width: 0 2px 2px 0;
      }
    }
''\<close>

text \<open>\<open>config.customCSS || ''\<close>: an absent and an empty string both give the empty string.\<close>

definition orEmpty :: "string option \<Rightarrow> string" where
  "orEmpty v = (case v of None \<Rightarrow> '''' | Some s \<Rightarrow> (if s = '''' then '''' else s))"

definition startsWith :: "string \<Rightarrow> string \<Rightarrow> bool" where
  "startsWith s searchString = prefix searchString s"

definition generateHTML :: "Date \<Rightarrow> StatusPageConfig \<Rightarrow> string" where
  \<open>generateHTML now config =
    (let currentTime = getCurrentTime now in ''
<!DOCTYPE html>
<html lang="en">
<head>
  <meta charset="UTF-8">
  <meta name="viewport" content="width=device-width, initial-scale=1.0">
  <title>'' @ title config @ ''</title>
  <link rel="preconnect" href="https://rsms.me/">
  <link rel="stylesheet" href="https://rsms.me/inter/inter.css">
  <style>
'' @ builtinStyles @ ''    /* Custom styles */
    '' @ orEmpty (customCSS config) @ ''
  </style>
</head>
<body>
  <nav>
    <div class="logo">
      '' @ (if startsWith (logo config) ''<svg'' then logo config else ''<img height="22px;" src="'' @ logo config @ ''" alt="Logo">'') @ ''
    </div>
    <div class="links">
      <a href="/">View issues</a>
      <a href="/">New issue</a>
    </div>
  </nav>
  <div class="header">
    <div class="icon">'' @ ICONS (currentStatus config) @ ''</div>
    <h1>'' @ TITLES (currentStatus config) @ ''</h1>
    <p>Today - '' @ currentTime @ ''</p>
  </div>
  <div class="table">
    <div class="row">
      <div class="cell">Current status by service</div>
      <div class="cell">
        No issue <div class="icon">'' @ ICONS noissue @ ''</div>
      </div>
      <div class="cell">
        Incident <div class="icon">'' @ ICONS incident @ ''</div>
      </div>
      <div class="cell">
        Outage <div class="icon">'' @ ICONS outage @ ''</div>
      </div>
    </div>
  </div>
  '' @ generateEnvironmentTables (environments config) @ ''
</body>
</html>'')\<close>

text \<open>The configuration of the demo server (the static example of the repository).\<close>

definition staticConfig :: StatusPageConfig where
  \<open>staticConfig =
    \<lparr>title = ''My Company Status'',
     logo = ''<svg width="43" height="22" xmlns="http://www.w3.org/2000/svg">
  <rect width="100%" height="100%" fill="transparent"/>
  <text x="50%" y="50%" font-size="18" fill="#333" text-anchor="middle" alignment-baseline="middle">Logo</text>
</svg>'',
     currentStatus = noissue,
     environments =
       [\<lparr>Environment.name = ''Production'',
         services =
           [\<lparr>Service.name = ''Web App'', status = noissue\<rparr>,
            \<lparr>Service.name = ''API'', status = incident\<rparr>,
            \<lparr>Service.name = ''Database'', status = noissue\<rparr>]\<rparr>,
        \<lparr>Environment.name = ''Staging'',
         services =
           [\<lparr>Service.name = ''Web App'', status = noissue\<rparr>,
            \<lparr>Service.name = ''API'', status = noissue\<rparr>,
            \<lparr>Service.name = ''Database'', status = outage\<rparr>]\<rparr>],
     customCSS = Some ''''\<rparr>\<close>

section \<open>The Gridfox adapter (gridfox/index.ts)\<close>

text \<open>
  The two \<open>fetch\<close> calls are the adapter's only effects. Their parsed results, the
  environment records and the issue records the server returned for the open statuses,
  are arguments of the model. A record is typed \<open>any\<close> in the source; the model gives
  it the fields the adapter reads. The classification function \<open>issueStatusType\<close>
  receives the whole issue record, so the fields the adapter does not read are kept in
  \<open>payload\<close>. Strict equality \<open>===\<close> on two strings is equality.
\<close>

record ServiceRecord =
  referenceFieldValue :: string

record EnvironmentRecord =
  name :: string
  services :: "ServiceRecord list"

record 'p IssueRecord =
  service :: string
  environment :: string
  payload :: 'p

record 'p GridfoxConfig =
  apiKey :: string
  brandingTableName :: "string option"
  environmentsTableName :: string
  issuesTableName :: string
  issueStatusListFieldName :: string
  openIssueListItems :: "string list"
  issueStatusType :: "'p IssueRecord \<Rightarrow> StatusType"
  proxyApiUrl :: "string option"

text \<open>The callback of \<open>env.services.map\<close>.\<close>

definition serviceFromRecord ::
  "'p GridfoxConfig \<Rightarrow> 'p IssueRecord list \<Rightarrow> EnvironmentRecord \<Rightarrow> ServiceRecord \<Rightarrow> Service" where
  "serviceFromRecord config issueRecords env s =
    (let scopedIssues =
           filter (\<lambda>issue. service issue = referenceFieldValue s
                     \<and> environment issue = EnvironmentRecord.name env) issueRecords;
         incidentIssues = filter (\<lambda>i. issueStatusType config i = incident) scopedIssues;
         outageIssues = filter (\<lambda>i. issueStatusType config i = outage) scopedIssues;
         st = noissue;
         st = (if length incidentIssues \<noteq> 0 then incident else st);
         st = (if length outageIssues \<noteq> 0 then outage else st)
     in \<lparr>Service.name = referenceFieldValue s, status = st\<rparr>)"

text \<open>The callback of \<open>environmentRecords.map\<close>.\<close>

definition environmentFromRecord ::
  "'p GridfoxConfig \<Rightarrow> 'p IssueRecord list \<Rightarrow> EnvironmentRecord \<Rightarrow> Environment" where
  "environmentFromRecord config issueRecords env =
    \<lparr>Environment.name = EnvironmentRecord.name env,
     services = map (serviceFromRecord config issueRecords env) (EnvironmentRecord.services env)\<rparr>"

definition configFromGridfox ::
  "'p GridfoxConfig \<Rightarrow> EnvironmentRecord list \<Rightarrow> 'p IssueRecord list \<Rightarrow> StatusPageConfig" where
  "configFromGridfox config environmentRecords issueRecords =
    (let envs = map (environmentFromRecord config issueRecords) environmentRecords;
         cur = noissue;
         cur = (if list_ex (\<lambda>e. list_ex (\<lambda>s. status s = incident) (Environment.services e)) envs
                then incident else cur);
         cur = (if list_ex (\<lambda>e. list_ex (\<lambda>s. status s = outage) (Environment.services e)) envs
                then outage else cur)
     in \<lparr>title = '''', logo = '''', currentStatus = cur, environments = envs, customCSS = None\<rparr>)"

section \<open>The severity order of the specification\<close>

text \<open>
  The spec orders the statuses by severity, \<open>noissue < incident < outage\<close>, and asks
  for the maximum of a list of statuses, \<open>noissue\<close> for the empty list.
\<close>

fun severity :: "StatusType \<Rightarrow> nat" where
  "severity noissue = 0"
| "severity incident = 1"
| "severity outage = 2"

definition worse :: "StatusType \<Rightarrow> StatusType \<Rightarrow> StatusType" where
  "worse a b = (if severity a < severity b then b else a)"

definition maxSeverity :: "StatusType list \<Rightarrow> StatusType" where
  "maxSeverity sts = foldr worse sts noissue"

section \<open>Example inputs\<close>

text \<open>A clock reading: five past nine in the morning, at UTC offset zero.\<close>

definition exampleClock :: Date where
  "exampleClock = \<lparr>hours = 9, minutes = 5, timezoneOffset = 0\<rparr>"

text \<open>
  The adapter scenario of the spec: three environment records and two open issue
  records, one of them classified \<open>outage\<close> and matching the service \<open>API\<close> of the
  environment \<open>Production\<close>. The payload of an issue is its \<open>type\<close> field, classified
  as in the example of the repository's README.
\<close>

definition exampleGridfoxConfig :: "string GridfoxConfig" where
  "exampleGridfoxConfig =
    \<lparr>apiKey = ''key'',
     brandingTableName = None,
     environmentsTableName = ''Environments'',
     issuesTableName = ''Issues'',
     issueStatusListFieldName = ''Status'',
     openIssueListItems = [''New'', ''In Progress''],
     issueStatusType =
       (\<lambda>issue. if payload issue = ''Bug'' then incident
                else if payload issue = ''Outage'' then outage else noissue),
     proxyApiUrl = None\<rparr>"

definition exampleEnvironmentRecords :: "EnvironmentRecord list" where
  "exampleEnvironmentRecords =
    [\<lparr>EnvironmentRecord.name = ''Production'',
      services = [\<lparr>referenceFieldValue = ''API''\<rparr>, \<lparr>referenceFieldValue = ''Database''\<rparr>]\<rparr>,
     \<lparr>EnvironmentRecord.name = ''Staging'', services = [\<lparr>referenceFieldValue = ''API''\<rparr>]\<rparr>,
     \<lparr>EnvironmentRecord.name = ''Development'', services = [\<lparr>referenceFieldValue = ''API''\<rparr>]\<rparr>]"

definition exampleIssueRecords :: "string IssueRecord list" where
  "exampleIssueRecords =
    [\<lparr>service = ''API'', environment = ''Production'', payload = ''Outage''\<rparr>,
     \<lparr>service = ''Database'', environment = ''Testing'', payload = ''Bug''\<rparr>]"

section \<open>The severity maximum\<close>

lemma worse_simps:
  "worse outage b = outage" "worse a outage = outage"
  "worse noissue b = b" "worse a noissue = a" "worse incident incident = incident"
  by (cases a; cases b; simp add: worse_def)+

lemma maxSeverity_Nil: "maxSeverity [] = noissue"
  by (simp add: maxSeverity_def)

lemma maxSeverity_Cons: "maxSeverity (s # sts) = worse s (maxSeverity sts)"
  by (simp add: maxSeverity_def)

text \<open>The maximum, as the spec spells it out.\<close>

lemma maxSeverity_cases:
  "maxSeverity sts =
    (if outage \<in> set sts then outage else if incident \<in> set sts then incident else noissue)"
proof (induction sts)
  case Nil
  show ?case by (simp add: maxSeverity_Nil)
next
  case (Cons s sts)
  show ?case
    by (cases s) (simp_all add: maxSeverity_Cons Cons.IH worse_simps)
qed

lemma maxSeverity_upper: "s \<in> set sts \<Longrightarrow> severity s \<le> severity (maxSeverity sts)"
  by (cases s) (auto simp: maxSeverity_cases)

lemma maxSeverity_member:
  assumes "sts \<noteq> []"
  shows "maxSeverity sts \<in> set sts"
proof -
  have "hd sts \<in> set sts"
    using assms by simp
  then have "outage \<in> set sts \<or> incident \<in> set sts \<or> noissue \<in> set sts"
    by (metis StatusType.exhaust)
  then show ?thesis
    by (auto simp: maxSeverity_cases)
qed

lemma list_ex_status: "list_ex (\<lambda>s. status s = x) svcs \<longleftrightarrow> x \<in> set (map status svcs)"
  by (auto simp: list_ex_iff)

text \<open>The renderer's \<open>getIcon\<close> shows the icon of the maximum.\<close>

lemma getIcon_eq: "getIcon svcs = ICONS (maxSeverity (map status svcs))"
  by (simp add: getIcon_def maxSeverity_cases list_ex_status del: set_map)

text \<open>The three icons differ, so the icon shown tells the status.\<close>

lemma ICONS_inj: "ICONS a = ICONS b \<Longrightarrow> a = b"
  by (cases a; cases b; simp)

section \<open>Where the renderer puts the interpolated values\<close>

lemma sublist_skip: "sublist xs ys \<Longrightarrow> sublist xs (ps @ ys)"
  by (auto simp: sublist_def) (metis append.assoc)

lemma sublist_widen: "sublist xs ys \<Longrightarrow> sublist ys zs \<Longrightarrow> sublist xs zs"
  by (rule sublist_order.order.trans)

lemma sublist_concat: "x \<in> set xss \<Longrightarrow> sublist x (concat xss)"
  by (induction xss) (auto intro: sublist_skip)

lemma sublist_between:
  "suffix a ps \<Longrightarrow> prefix b ss \<Longrightarrow> sublist (a @ x @ b) (ps @ x @ ss)"
  by (auto simp: sublist_def suffix_def prefix_def) (metis append.assoc)

lemma sublist_between3:
  "suffix a ps \<Longrightarrow> prefix b ss \<Longrightarrow> sublist (a @ x @ y @ z @ b) (ps @ x @ y @ z @ ss)"
  using sublist_between [of a ps b ss "x @ y @ z"] by simp

lemma split_here: "x @ ss = [] @ x @ ss"
  by simp

lemma split_skip: "ys = ps @ x @ ss \<Longrightarrow> p @ ys = (p @ ps) @ x @ ss"
  by simp

lemma html_tables: "sublist (generateEnvironmentTables (environments cfg)) (generateHTML now cfg)"
  unfolding generateHTML_def Let_def
  by (rule sublist_appendI | rule sublist_skip)+

lemma enumerate_member: "i < length xs \<Longrightarrow> (i, xs ! i) \<in> set (enumerate 0 xs)"
  by (metis add_0 in_set_conv_nth length_enumerate nth_enumerate_eq)

lemma tables_table:
  "i < length envs \<Longrightarrow> sublist (environmentTable i (envs ! i)) (generateEnvironmentTables envs)"
  unfolding generateEnvironmentTables_def
  by (rule sublist_concat) (use enumerate_member [of i envs] in force)

lemma html_table:
  "i < length (environments cfg) \<Longrightarrow>
    sublist (environmentTable i (environments cfg ! i)) (generateHTML now cfg)"
  by (rule sublist_widen [OF tables_table html_tables])

lemma table_rows: "sublist (generateServiceRows (Environment.services env)) (environmentTable i env)"
  unfolding environmentTable_def
  by (rule sublist_appendI | rule sublist_skip)+

lemma rows_row: "svc \<in> set svcs \<Longrightarrow> sublist (serviceRow svc) (generateServiceRows svcs)"
  unfolding generateServiceRows_def
  by (rule sublist_concat) simp

lemma table_summary:
  \<open>sublist (''<div class="cell">'' @ Environment.name env @ ''</div>
        <div class="cell">
          <div class="icon">'' @ getIcon (Environment.services env) @ ''</div>'')
     (environmentTable i env)\<close>
  unfolding environmentTable_def
  by ((rule sublist_between3, simp add: suffix_Cons, simp) | rule sublist_skip)+

lemma table_name:
  \<open>sublist (''<div class="cell">'' @ Environment.name env @ ''</div>'') (environmentTable i env)\<close>
  unfolding environmentTable_def
  by ((rule sublist_between, simp add: suffix_Cons, simp) | rule sublist_skip)+

lemma row_name:
  \<open>sublist (''<div class="service-name">'' @ Service.name svc @ ''</div>'') (serviceRow svc)\<close>
  unfolding serviceRow_def
  by ((rule sublist_between, simp add: suffix_Cons, simp) | rule sublist_skip)+

lemma html_title: \<open>sublist (''<title>'' @ title cfg @ ''</title>'') (generateHTML now cfg)\<close>
  unfolding generateHTML_def Let_def
  by ((rule sublist_between, simp add: suffix_Cons, simp) | rule sublist_skip)+

lemma html_header:
  \<open>sublist (''<div class="header">
    <div class="icon">'' @ ICONS (currentStatus cfg) @ ''</div>
    <h1>'' @ TITLES (currentStatus cfg) @ ''</h1>'') (generateHTML now cfg)\<close>
  unfolding generateHTML_def Let_def
  by ((rule sublist_between3, simp add: suffix_Cons, simp) | rule sublist_skip)+

lemma html_logo_svg:
  \<open>startsWith (logo cfg) ''<svg'' \<Longrightarrow>
    sublist (''<div class="logo">
      '' @ logo cfg @ ''
    </div>'') (generateHTML now cfg)\<close>
  unfolding generateHTML_def Let_def
  by (simp only: if_True)
    (((rule sublist_between, simp add: suffix_Cons, simp) | rule sublist_skip)+)

lemma html_logo_img:
  \<open>\<not> startsWith (logo cfg) ''<svg'' \<Longrightarrow>
    sublist (''<img height="22px;" src="'' @ logo cfg @ ''" alt="Logo">'') (generateHTML now cfg)\<close>
  unfolding generateHTML_def Let_def
  by (simp only: if_False append_assoc)
    (((rule sublist_between, simp add: suffix_Cons, simp) | rule sublist_skip)+)

lemma orEmpty_Some: "orEmpty (Some css) = css"
  by (simp add: orEmpty_def)

lemma html_customCSS:
  \<open>customCSS cfg = Some css \<Longrightarrow>
    sublist (''<style>
'' @ builtinStyles @ ''    /* Custom styles */
    '' @ css @ ''
  </style>'') (generateHTML now cfg)\<close>
  unfolding generateHTML_def Let_def
  by (simp only: orEmpty_Some)
    (((rule sublist_between3, simp add: suffix_Cons, simp) | rule sublist_skip)+)

lemma html_time: "\<exists>pre post. \<forall>now. generateHTML now cfg = pre @ getCurrentTime now @ post"
  unfolding generateHTML_def Let_def
  apply (rule exI, rule exI, rule allI)
  apply (rule split_skip | rule split_here)+
  done

lemma html_summary:
  \<open>i < length (environments cfg) \<Longrightarrow>
    sublist (''<div class="cell">'' @ Environment.name (environments cfg ! i) @ ''</div>
        <div class="cell">
          <div class="icon">'' @ getIcon (Environment.services (environments cfg ! i)) @ ''</div>'')
     (generateHTML now cfg)\<close>
  by (rule sublist_widen [OF table_summary html_table])

lemma html_env_name:
  \<open>i < length (environments cfg) \<Longrightarrow>
    sublist (''<div class="cell">'' @ Environment.name (environments cfg ! i) @ ''</div>'')
     (generateHTML now cfg)\<close>
  by (rule sublist_widen [OF table_name html_table])

lemma html_service_name:
  assumes i: "i < length (environments cfg)"
    and svc: "svc \<in> set (Environment.services (environments cfg ! i))"
  shows \<open>sublist (''<div class="service-name">'' @ Service.name svc @ ''</div>'')
    (generateHTML now cfg)\<close>
proof -
  have \<open>sublist (''<div class="service-name">'' @ Service.name svc @ ''</div>'')
      (generateServiceRows (Environment.services (environments cfg ! i)))\<close>
    by (rule sublist_widen [OF row_name rows_row [OF svc]])
  then have \<open>sublist (''<div class="service-name">'' @ Service.name svc @ ''</div>'')
      (environmentTable i (environments cfg ! i))\<close>
    by (rule sublist_widen [OF _ table_rows])
  then show ?thesis
    by (rule sublist_widen [OF _ html_table [OF i]])
qed

section \<open>What the adapter derives\<close>

lemma serviceFromRecord_status:
  "status (serviceFromRecord config issueRecords env s) =
    maxSeverity (map (issueStatusType config)
      (filter (\<lambda>issue. service issue = referenceFieldValue s
                 \<and> environment issue = EnvironmentRecord.name env) issueRecords))"
  by (auto simp: serviceFromRecord_def Let_def maxSeverity_cases filter_empty_conv image_iff)

lemma serviceFromRecord_name:
  "Service.name (serviceFromRecord config issueRecords env s) = referenceFieldValue s"
  by (simp add: serviceFromRecord_def Let_def)

lemma configFromGridfox_environments:
  "environments (configFromGridfox config environmentRecords issueRecords) =
    map (environmentFromRecord config issueRecords) environmentRecords"
  by (simp add: configFromGridfox_def Let_def)

lemma pageStatus_eq:
  "(if list_ex (\<lambda>e. list_ex (\<lambda>s. status s = outage) (Environment.services e)) envs then outage
    else if list_ex (\<lambda>e. list_ex (\<lambda>s. status s = incident) (Environment.services e)) envs
      then incident else noissue) =
    maxSeverity (concat (map (\<lambda>e. map status (Environment.services e)) envs))"
proof -
  have "list_ex (\<lambda>e. list_ex (\<lambda>s. status s = x) (Environment.services e)) envs \<longleftrightarrow>
      x \<in> set (concat (map (\<lambda>e. map status (Environment.services e)) envs))" for x
    by (auto simp: list_ex_iff)
  then show ?thesis
    by (simp only: maxSeverity_cases)
qed

lemma configFromGridfox_currentStatus:
  "currentStatus (configFromGridfox config environmentRecords issueRecords) =
    maxSeverity (concat (map (\<lambda>e. map status (Environment.services e))
      (environments (configFromGridfox config environmentRecords issueRecords))))"
proof -
  let ?envs = "map (environmentFromRecord config issueRecords) environmentRecords"
  have "currentStatus (configFromGridfox config environmentRecords issueRecords) =
      (if list_ex (\<lambda>e. list_ex (\<lambda>s. status s = outage) (Environment.services e)) ?envs
       then outage
       else if list_ex (\<lambda>e. list_ex (\<lambda>s. status s = incident) (Environment.services e)) ?envs
         then incident else noissue)"
    by (simp add: configFromGridfox_def Let_def)
  then show ?thesis
    by (simp only: pageStatus_eq configFromGridfox_environments)
qed

lemma environmentFromRecord_eq:
  "environmentFromRecord config issueRecords env =
    \<lparr>Environment.name = EnvironmentRecord.name env,
     services = map (\<lambda>s.
       \<lparr>Service.name = referenceFieldValue s,
        status = maxSeverity (map (issueStatusType config)
          (filter (\<lambda>issue. service issue = referenceFieldValue s
                     \<and> environment issue = EnvironmentRecord.name env) issueRecords))\<rparr>)
       (EnvironmentRecord.services env)\<rparr>"
proof -
  have "serviceFromRecord config issueRecords env s =
      \<lparr>Service.name = referenceFieldValue s,
       status = maxSeverity (map (issueStatusType config)
         (filter (\<lambda>issue. service issue = referenceFieldValue s
                    \<and> environment issue = EnvironmentRecord.name env) issueRecords))\<rparr>" for s
    using serviceFromRecord_status [of config issueRecords env s]
      serviceFromRecord_name [of config issueRecords env s]
    by (cases "serviceFromRecord config issueRecords env s") simp
  then show ?thesis
    by (simp add: environmentFromRecord_def)
qed

text \<open>The maximum of one environment never exceeds the maximum of the page.\<close>

lemma maxSeverity_concat_upper:
  "sts \<in> set stss \<Longrightarrow> severity (maxSeverity sts) \<le> severity (maxSeverity (concat stss))"
proof -
  assume m: "sts \<in> set stss"
  show ?thesis
  proof (cases "sts = []")
    case True
    then show ?thesis by (simp add: maxSeverity_Nil)
  next
    case False
    then have "maxSeverity sts \<in> set sts"
      by (rule maxSeverity_member)
    with m have "maxSeverity sts \<in> set (concat stss)"
      by auto
    then show ?thesis
      by (rule maxSeverity_upper)
  qed
qed

section \<open>The tables by position, the logo test, the custom styles, the clock\<close>

lemma tables_by_position:
  "generateEnvironmentTables envs =
    concat (map (\<lambda>i. environmentTable i (envs ! i)) [0..<length envs])"
proof -
  have "map (\<lambda>(index, env). environmentTable index env) (enumerate 0 envs) =
      map (\<lambda>i. environmentTable i (envs ! i)) [0..<length envs]"
    by (rule nth_equalityI) (simp_all add: nth_enumerate_eq)
  then show ?thesis
    by (simp only: generateEnvironmentTables_def)
qed

lemma table_open:
  \<open>prefix (''
    <details open class="table">'') (environmentTable 0 env)\<close>
  by (simp add: environmentTable_def)

lemma table_closed:
  \<open>0 < i \<Longrightarrow> prefix (''
    <details  class="table">'') (environmentTable i env)\<close>
  by (simp add: environmentTable_def)

lemma startsWith_svg: \<open>startsWith s ''<svg'' \<longleftrightarrow> take 4 s = ''<svg''\<close>
proof
  assume "startsWith s ''<svg''"
  then obtain r where "s = ''<svg'' @ r"
    by (auto simp: startsWith_def prefix_def)
  then show "take 4 s = ''<svg''"
    by simp
next
  assume "take 4 s = ''<svg''"
  then have "s = ''<svg'' @ drop 4 s"
    by (metis append_take_drop_id)
  then show "startsWith s ''<svg''"
    unfolding startsWith_def by (rule prefixI)
qed

text \<open>The page reads the configuration through five values only.\<close>

lemma html_same:
  assumes "title a = title b" "logo a = logo b" "currentStatus a = currentStatus b"
    "environments a = environments b" "orEmpty (customCSS a) = orEmpty (customCSS b)"
  shows "generateHTML now a = generateHTML now b"
  unfolding generateHTML_def Let_def by (simp only: assms)

lemma orEmpty_absent: "orEmpty None = orEmpty (Some '''')"
  by (simp add: orEmpty_def)

lemma digit_in_range: "''0123456789'' ! (k mod 10) \<in> set ''0123456789''"
  by (rule nth_mem) simp

lemma twoDigits_digits: "list_all (\<lambda>c. c \<in> set ''0123456789'') (twoDigits n)"
  using digit_in_range [of "n div 10"] digit_in_range [of n]
  by (simp add: twoDigits_def)

lemma twoDigits_length: "length (twoDigits n) = 2"
  by (simp add: twoDigits_def)

lemma digit_value: "k < 10 \<Longrightarrow> of_char (''0123456789'' ! k) = (48 + k :: nat)"
proof -
  assume "k < 10"
  then have "k \<in> {0, 1, 2, 3, 4, 5, 6, 7, 8, 9}"
    by auto
  then show ?thesis
    by (elim insertE emptyE) simp_all
qed

text \<open>The two characters are the decimal digits of the number.\<close>

lemma twoDigits_value:
  assumes "n < 100"
  shows "10 * (of_char (twoDigits n ! 0) - 48) + (of_char (twoDigits n ! 1) - 48) = n"
proof -
  have a: "of_char (twoDigits n ! 0) = (48 + n div 10 :: nat)"
    using assms digit_value [of "n div 10"] by (simp add: twoDigits_def)
  have b: "of_char (twoDigits n ! Suc 0) = (48 + n mod 10 :: nat)"
    using digit_value [of "n mod 10"] by (simp add: twoDigits_def)
  show ?thesis
    by (simp add: a b)
qed

section \<open>The claims\<close>

text \<open>
  C1. For every environment of the configuration, the page shows in the summary row of
  that environment the icon of the maximum, by severity, of the statuses of its
  services: \<open>outage\<close> if a service has status \<open>outage\<close>, else \<open>incident\<close> if one has
  status \<open>incident\<close>, else \<open>noissue\<close>; no service is more severe than the status
  shown, and an environment without services shows \<open>noissue\<close>. The three icons
  differ (\<open>ICONS_inj\<close>), so the icon tells the status.
\<close>

theorem environment_status_is_severity_maximum:
  \<open>env \<in> set (environments cfg) \<Longrightarrow>
    sublist (''<div class="cell">'' @ Environment.name env @ ''</div>
        <div class="cell">
          <div class="icon">'' @ ICONS (maxSeverity (map status (Environment.services env))) @ ''</div>'')
      (generateHTML now cfg)
    \<and> getIcon (Environment.services env) = ICONS (maxSeverity (map status (Environment.services env)))
    \<and> maxSeverity (map status (Environment.services env)) =
        (if list_ex (\<lambda>s. status s = outage) (Environment.services env) then outage
         else if list_ex (\<lambda>s. status s = incident) (Environment.services env) then incident
         else noissue)
    \<and> list_all (\<lambda>s. severity (status s)
          \<le> severity (maxSeverity (map status (Environment.services env)))) (Environment.services env)
    \<and> (Environment.services env = [] \<longrightarrow>
          maxSeverity (map status (Environment.services env)) = noissue)\<close>
proof -
  assume "env \<in> set (environments cfg)"
  then obtain i where i: "i < length (environments cfg)" "environments cfg ! i = env"
    by (auto simp: in_set_conv_nth)
  have shown: \<open>sublist (''<div class="cell">'' @ Environment.name env @ ''</div>
        <div class="cell">
          <div class="icon">'' @ ICONS (maxSeverity (map status (Environment.services env))) @ ''</div>'')
      (generateHTML now cfg)\<close>
    using html_summary [OF i(1), of now] by (simp only: i(2) getIcon_eq)
  have bound: "list_all (\<lambda>s. severity (status s)
      \<le> severity (maxSeverity (map status (Environment.services env)))) (Environment.services env)"
    by (simp add: list_all_iff maxSeverity_upper)
  have rule: "maxSeverity (map status (Environment.services env)) =
        (if list_ex (\<lambda>s. status s = outage) (Environment.services env) then outage
         else if list_ex (\<lambda>s. status s = incident) (Environment.services env) then incident
         else noissue)"
    by (simp only: maxSeverity_cases list_ex_status)
  have icon: "getIcon (Environment.services env) =
      ICONS (maxSeverity (map status (Environment.services env)))"
    by (rule getIcon_eq)
  have empty: "Environment.services env = [] \<longrightarrow>
      maxSeverity (map status (Environment.services env)) = noissue"
    by (simp add: maxSeverity_Nil)
  show ?thesis
    by (intro conjI shown icon rule bound empty)
qed

theorem environment_status_is_severity_maximum_witness:
  \<open>sublist (''<div class="cell">Staging</div>
        <div class="cell">
          <div class="icon">'' @ ICONS outage @ ''</div>'') (generateHTML exampleClock staticConfig)
   \<and> sublist (''<div class="cell">Empty</div>
        <div class="cell">
          <div class="icon">'' @ ICONS noissue @ ''</div>'')
        (generateHTML exampleClock
          (staticConfig\<lparr>environments := [\<lparr>Environment.name = ''Empty'', services = []\<rparr>]\<rparr>))\<close>
  using environment_status_is_severity_maximum
      [of "environments staticConfig ! 1" staticConfig exampleClock]
    environment_status_is_severity_maximum
      [of "\<lparr>Environment.name = ''Empty'', services = []\<rparr>"
          "staticConfig\<lparr>environments := [\<lparr>Environment.name = ''Empty'', services = []\<rparr>]\<rparr>"
          exampleClock]
  by (simp add: staticConfig_def maxSeverity_cases)

text \<open>
  C2, as stated, fails. The claim says that the status shown for an environment is a
  value the caller computed beforehand and that the renderer does not recompute it from
  the services. The type \<open>Environment\<close> has no status of its own, and the renderer
  computes the icon of the summary row with \<open>getIcon\<close> from the services. The demo
  configuration of the repository gives \<open>currentStatus = noissue\<close>, yet the page shows
  the \<open>outage\<close> icon for the environment \<open>Staging\<close>; with the status of the service
  \<open>Database\<close> changed to \<open>noissue\<close> and every other value of the configuration kept,
  the same row shows the \<open>noissue\<close> icon.
\<close>

theorem environment_status_precomputed_counterexample:
  \<open>currentStatus staticConfig = noissue
   \<and> sublist (''<div class="cell">Staging</div>
        <div class="cell">
          <div class="icon">'' @ ICONS outage @ ''</div>'') (generateHTML exampleClock staticConfig)
   \<and> sublist (''<div class="cell">Staging</div>
        <div class="cell">
          <div class="icon">'' @ ICONS noissue @ ''</div>'')
        (generateHTML exampleClock
          (staticConfig\<lparr>environments :=
            [environments staticConfig ! 0,
             \<lparr>Environment.name = ''Staging'',
              services =
                [\<lparr>Service.name = ''Web App'', status = noissue\<rparr>,
                 \<lparr>Service.name = ''API'', status = noissue\<rparr>,
                 \<lparr>Service.name = ''Database'', status = noissue\<rparr>]\<rparr>]\<rparr>))
   \<and> ICONS outage \<noteq> ICONS noissue\<close>
proof -
  let ?quiet = "staticConfig\<lparr>environments :=
            [environments staticConfig ! 0,
             \<lparr>Environment.name = ''Staging'',
              services =
                [\<lparr>Service.name = ''Web App'', status = noissue\<rparr>,
                 \<lparr>Service.name = ''API'', status = noissue\<rparr>,
                 \<lparr>Service.name = ''Database'', status = noissue\<rparr>]\<rparr>]\<rparr>"
  have a: "currentStatus staticConfig = noissue"
    by (simp add: staticConfig_def)
  have b: \<open>sublist (''<div class="cell">Staging</div>
        <div class="cell">
          <div class="icon">'' @ ICONS outage @ ''</div>'') (generateHTML exampleClock staticConfig)\<close>
    using html_summary [of 1 staticConfig exampleClock]
    by (simp add: staticConfig_def getIcon_def)
  have c: \<open>sublist (''<div class="cell">Staging</div>
        <div class="cell">
          <div class="icon">'' @ ICONS noissue @ ''</div>'') (generateHTML exampleClock ?quiet)\<close>
    using html_summary [of 1 ?quiet exampleClock]
    by (simp add: staticConfig_def getIcon_def)
  have d: "ICONS outage \<noteq> ICONS noissue"
    by simp
  show ?thesis
    by (intro conjI a b c d)
qed

text \<open>
  C2, amended. The renderer takes only the page-level status from the caller: the
  header shows the icon and the title of \<open>currentStatus\<close>, whatever its value. The
  status shown for an environment is recomputed by the renderer from the statuses of
  the services of that environment, as their severity maximum, and does not depend on
  \<open>currentStatus\<close>.
\<close>

theorem environment_status_derived_by_renderer:
  \<open>env \<in> set (environments cfg) \<Longrightarrow>
    sublist (''<div class="cell">'' @ Environment.name env @ ''</div>
        <div class="cell">
          <div class="icon">'' @ ICONS (maxSeverity (map status (Environment.services env))) @ ''</div>'')
      (generateHTML now (cfg\<lparr>currentStatus := st\<rparr>))
    \<and> sublist (''<div class="header">
    <div class="icon">'' @ ICONS st @ ''</div>
    <h1>'' @ TITLES st @ ''</h1>'') (generateHTML now (cfg\<lparr>currentStatus := st\<rparr>))\<close>
proof -
  let ?cfg = "cfg\<lparr>currentStatus := st\<rparr>"
  assume "env \<in> set (environments cfg)"
  then obtain i where i: "i < length (environments ?cfg)" "environments ?cfg ! i = env"
    by (auto simp: in_set_conv_nth)
  have shown: \<open>sublist (''<div class="cell">'' @ Environment.name env @ ''</div>
        <div class="cell">
          <div class="icon">'' @ ICONS (maxSeverity (map status (Environment.services env))) @ ''</div>'')
      (generateHTML now ?cfg)\<close>
    using html_summary [OF i(1), of now] by (simp only: i(2) getIcon_eq)
  have header: \<open>sublist (''<div class="header">
    <div class="icon">'' @ ICONS st @ ''</div>
    <h1>'' @ TITLES st @ ''</h1>'') (generateHTML now ?cfg)\<close>
    using html_header [of ?cfg now] by simp
  show ?thesis
    by (intro conjI shown header)
qed

theorem environment_status_derived_by_renderer_witness:
  \<open>sublist (''<div class="cell">Production</div>
        <div class="cell">
          <div class="icon">'' @ ICONS incident @ ''</div>'')
      (generateHTML exampleClock (staticConfig\<lparr>currentStatus := outage\<rparr>))
    \<and> sublist (''<div class="header">
    <div class="icon">'' @ ICONS outage @ ''</div>
    <h1>Service Disruption Ongoing</h1>'')
      (generateHTML exampleClock (staticConfig\<lparr>currentStatus := outage\<rparr>))\<close>
  using environment_status_derived_by_renderer
      [of "environments staticConfig ! 0" staticConfig exampleClock outage]
  by (simp add: staticConfig_def maxSeverity_cases)

text \<open>
  C3. The aggregation rule is the same function at each place where a status is
  aggregated: the adapter's status of a service is \<open>maxSeverity\<close> of the
  classifications of the issues matched to the service, the adapter's page-level
  \<open>currentStatus\<close> is \<open>maxSeverity\<close> of the statuses of all services of all
  environments, and the renderer's icon of an environment is the icon of
  \<open>maxSeverity\<close> of the statuses of its services; \<open>maxSeverity\<close> is the maximum
  under \<open>outage > incident > noissue\<close>, and \<open>noissue\<close> for the empty list.
\<close>

theorem aggregation_same_at_every_call_site:
  "status (serviceFromRecord config issueRecords env s) =
      maxSeverity (map (issueStatusType config)
        (filter (\<lambda>issue. service issue = referenceFieldValue s
                   \<and> environment issue = EnvironmentRecord.name env) issueRecords))
   \<and> currentStatus (configFromGridfox config environmentRecords issueRecords) =
      maxSeverity (concat (map (\<lambda>e. map status (Environment.services e))
        (environments (configFromGridfox config environmentRecords issueRecords))))
   \<and> getIcon svcs = ICONS (maxSeverity (map status svcs))
   \<and> maxSeverity sts =
      (if outage \<in> set sts then outage else if incident \<in> set sts then incident else noissue)
   \<and> maxSeverity [] = noissue"
  by (intro conjI serviceFromRecord_status configFromGridfox_currentStatus getIcon_eq
      maxSeverity_cases maxSeverity_Nil)

theorem aggregation_same_at_every_call_site_witness:
  "status (serviceFromRecord exampleGridfoxConfig exampleIssueRecords
      (exampleEnvironmentRecords ! 0) \<lparr>referenceFieldValue = ''API''\<rparr>) = outage
   \<and> currentStatus
      (configFromGridfox exampleGridfoxConfig exampleEnvironmentRecords exampleIssueRecords) = outage
   \<and> getIcon (Environment.services (environments staticConfig ! 0)) = ICONS incident"
  using aggregation_same_at_every_call_site
    [of exampleGridfoxConfig exampleIssueRecords "exampleEnvironmentRecords ! 0"
        "\<lparr>referenceFieldValue = ''API''\<rparr>" exampleEnvironmentRecords
        "Environment.services (environments staticConfig ! 0)" "[]"]
  by (simp add: exampleGridfoxConfig_def exampleIssueRecords_def exampleEnvironmentRecords_def
      staticConfig_def maxSeverity_cases configFromGridfox_environments
      environmentFromRecord_def serviceFromRecord_status)

text \<open>
  C4, as stated, fails in its last part. The adapter derives a status for every service
  and one for the page; it derives none for an environment, and the type of a returned
  environment has only a name and the services. In the scenario of the spec (three
  environment records, two open issues, one of them an outage of the service \<open>API\<close> of
  \<open>Production\<close>) the page-level status is \<open>outage\<close>, while the returned environment
  \<open>Staging\<close> consists of its name and one service of status \<open>noissue\<close>: it carries
  no \<open>outage\<close>, and the maximum over its own services is \<open>noissue\<close>.
\<close>

theorem adapter_environment_status_counterexample:
  "currentStatus
      (configFromGridfox exampleGridfoxConfig exampleEnvironmentRecords exampleIssueRecords) = outage
   \<and> environments
      (configFromGridfox exampleGridfoxConfig exampleEnvironmentRecords exampleIssueRecords) ! 1 =
      \<lparr>Environment.name = ''Staging'',
       services = [\<lparr>Service.name = ''API'', status = noissue\<rparr>]\<rparr>
   \<and> maxSeverity (map status (Environment.services (environments
      (configFromGridfox exampleGridfoxConfig exampleEnvironmentRecords exampleIssueRecords) ! 1)))
      = noissue"
  by (simp add: configFromGridfox_currentStatus configFromGridfox_environments
      environmentFromRecord_eq exampleGridfoxConfig_def exampleEnvironmentRecords_def
      exampleIssueRecords_def maxSeverity_cases)

text \<open>
  C4, amended. The adapter matches an issue to a service exactly when the issue's
  \<open>service\<close> field equals the service's reference-field value and its \<open>environment\<close>
  field equals the name of the environment. The derived status of the service is the
  severity maximum of the classifications of the matched issues, and the page-level
  \<open>currentStatus\<close> is the severity maximum over all services of all environments. A
  returned environment carries its name and its services with their derived statuses,
  and no status of its own; the maximum over its own services is at most
  \<open>currentStatus\<close>.
\<close>

theorem adapter_derives_service_and_page_status:
  "environments (configFromGridfox config environmentRecords issueRecords) =
      map (\<lambda>env.
        \<lparr>Environment.name = EnvironmentRecord.name env,
         services = map (\<lambda>s.
           \<lparr>Service.name = referenceFieldValue s,
            status = maxSeverity (map (issueStatusType config)
              (filter (\<lambda>issue. service issue = referenceFieldValue s
                         \<and> environment issue = EnvironmentRecord.name env) issueRecords))\<rparr>)
           (EnvironmentRecord.services env)\<rparr>) environmentRecords
   \<and> currentStatus (configFromGridfox config environmentRecords issueRecords) =
      maxSeverity (concat (map (\<lambda>e. map status (Environment.services e))
        (environments (configFromGridfox config environmentRecords issueRecords))))
   \<and> list_all (\<lambda>e. severity (maxSeverity (map status (Environment.services e)))
        \<le> severity (currentStatus (configFromGridfox config environmentRecords issueRecords)))
      (environments (configFromGridfox config environmentRecords issueRecords))"
proof -
  let ?cfg = "configFromGridfox config environmentRecords issueRecords"
  have envs: "environments ?cfg =
      map (\<lambda>env.
        \<lparr>Environment.name = EnvironmentRecord.name env,
         services = map (\<lambda>s.
           \<lparr>Service.name = referenceFieldValue s,
            status = maxSeverity (map (issueStatusType config)
              (filter (\<lambda>issue. service issue = referenceFieldValue s
                         \<and> environment issue = EnvironmentRecord.name env) issueRecords))\<rparr>)
           (EnvironmentRecord.services env)\<rparr>) environmentRecords"
    by (simp add: configFromGridfox_environments environmentFromRecord_eq)
  have page: "currentStatus ?cfg =
      maxSeverity (concat (map (\<lambda>e. map status (Environment.services e)) (environments ?cfg)))"
    by (rule configFromGridfox_currentStatus)
  have bound: "list_all (\<lambda>e. severity (maxSeverity (map status (Environment.services e)))
        \<le> severity (currentStatus ?cfg)) (environments ?cfg)"
    unfolding list_all_iff
  proof
    fix e
    assume "e \<in> set (environments ?cfg)"
    then have "map status (Environment.services e)
        \<in> set (map (\<lambda>e. map status (Environment.services e)) (environments ?cfg))"
      by simp
    then show "severity (maxSeverity (map status (Environment.services e)))
        \<le> severity (currentStatus ?cfg)"
      by (simp only: page maxSeverity_concat_upper)
  qed
  show ?thesis
    by (intro conjI envs page bound)
qed

theorem adapter_derives_service_and_page_status_witness:
  "environments
      (configFromGridfox exampleGridfoxConfig exampleEnvironmentRecords exampleIssueRecords) =
      [\<lparr>Environment.name = ''Production'',
        services = [\<lparr>Service.name = ''API'', status = outage\<rparr>,
                    \<lparr>Service.name = ''Database'', status = noissue\<rparr>]\<rparr>,
       \<lparr>Environment.name = ''Staging'',
        services = [\<lparr>Service.name = ''API'', status = noissue\<rparr>]\<rparr>,
       \<lparr>Environment.name = ''Development'',
        services = [\<lparr>Service.name = ''API'', status = noissue\<rparr>]\<rparr>]
   \<and> currentStatus
      (configFromGridfox exampleGridfoxConfig exampleEnvironmentRecords exampleIssueRecords) = outage"
  using adapter_derives_service_and_page_status
    [of exampleGridfoxConfig exampleEnvironmentRecords exampleIssueRecords]
  by (simp add: exampleGridfoxConfig_def exampleEnvironmentRecords_def
      exampleIssueRecords_def maxSeverity_cases)

text \<open>
  C5. The tables of the page are the tables of the environments in the order of the
  input, each rendered with its position; the table at position 0 starts with the tag
  \<open><details open class="table">\<close> and a table at a later position with
  \<open><details  class="table">\<close>, whatever the environment and its statuses are.
\<close>

theorem only_first_table_expanded:
  \<open>generateEnvironmentTables envs =
      concat (map (\<lambda>i. environmentTable i (envs ! i)) [0..<length envs])
   \<and> sublist (generateEnvironmentTables (environments cfg)) (generateHTML now cfg)
   \<and> prefix (''
    <details open class="table">'') (environmentTable 0 env)
   \<and> (0 < i \<longrightarrow> prefix (''
    <details  class="table">'') (environmentTable i env))\<close>
  using tables_by_position [of envs] html_tables [of cfg now] table_open [of env]
    table_closed [of i env]
  by blast

theorem only_first_table_expanded_witness:
  \<open>prefix (''
    <details open class="table">'') (environmentTable 0 (environments staticConfig ! 0))
   \<and> prefix (''
    <details  class="table">'') (environmentTable 1 (environments staticConfig ! 1))
   \<and> generateEnvironmentTables (environments staticConfig) =
      environmentTable 0 (environments staticConfig ! 0)
      @ environmentTable 1 (environments staticConfig ! 1)\<close>
  using only_first_table_expanded
      [of "environments staticConfig" staticConfig exampleClock "environments staticConfig ! 0" 1]
    only_first_table_expanded
      [of "environments staticConfig" staticConfig exampleClock "environments staticConfig ! 1" 1]
  by (simp add: staticConfig_def upt_rec)

text \<open>
  C6. A logo that starts with the four characters \<open><svg\<close> stands verbatim inside the
  logo block of the page; every other logo stands verbatim between \<open>src="\<close> and the
  closing quote of an \<open>img\<close> element.
\<close>

theorem logo_inlined_or_image_source:
  \<open>(startsWith (logo cfg) ''<svg'' \<longrightarrow>
      sublist (''<div class="logo">
      '' @ logo cfg @ ''
    </div>'') (generateHTML now cfg))
   \<and> (\<not> startsWith (logo cfg) ''<svg'' \<longrightarrow>
      sublist (''<img height="22px;" src="'' @ logo cfg @ ''" alt="Logo">'') (generateHTML now cfg))
   \<and> (startsWith (logo cfg) ''<svg'' \<longleftrightarrow> take 4 (logo cfg) = ''<svg'')\<close>
  by (intro conjI impI html_logo_svg html_logo_img startsWith_svg)

theorem logo_inlined_or_image_source_witness:
  \<open>sublist (''<div class="logo">
      '' @ logo staticConfig @ ''
    </div>'') (generateHTML exampleClock staticConfig)
   \<and> sublist (''<img height="22px;" src="https://example.com/logo.png" alt="Logo">'')
      (generateHTML exampleClock (staticConfig\<lparr>logo := ''https://example.com/logo.png''\<rparr>))\<close>
proof -
  have svg: \<open>startsWith (logo staticConfig) ''<svg''\<close>
    by (simp add: startsWith_def staticConfig_def)
  have url: \<open>\<not> startsWith (logo (staticConfig\<lparr>logo := ''https://example.com/logo.png''\<rparr>)) ''<svg''\<close>
    by (simp add: startsWith_def)
  note inlined = logo_inlined_or_image_source
    [of staticConfig exampleClock, THEN conjunct1, rule_format, OF svg]
  note image = logo_inlined_or_image_source
    [of "staticConfig\<lparr>logo := ''https://example.com/logo.png''\<rparr>" exampleClock,
      THEN conjunct2, THEN conjunct1, rule_format, OF url]
  show ?thesis
    using inlined image by simp
qed

text \<open>
  C7. A custom style sheet that is present stands verbatim at the end of the style
  block: after all built-in rules and the comment line, and right before the line that
  closes the block. A configuration without \<open>customCSS\<close> renders as one with the empty
  string.
\<close>

theorem customCSS_appended_verbatim:
  \<open>(customCSS cfg = Some css \<longrightarrow>
      sublist (''<style>
'' @ builtinStyles @ ''    /* Custom styles */
    '' @ css @ ''
  </style>'') (generateHTML now cfg))
   \<and> generateHTML now (cfg\<lparr>customCSS := None\<rparr>) = generateHTML now (cfg\<lparr>customCSS := Some ''''\<rparr>)\<close>
proof -
  have eq: "generateHTML now (cfg\<lparr>customCSS := None\<rparr>) = generateHTML now (cfg\<lparr>customCSS := Some ''''\<rparr>)"
    by (rule html_same) (simp_all add: orEmpty_absent)
  show ?thesis
    by (intro conjI impI eq) (rule html_customCSS)
qed

theorem customCSS_appended_verbatim_witness:
  \<open>sublist (''<style>
'' @ builtinStyles @ ''    /* Custom styles */
    body { background-color: #f0f0f0; }
  </style>'')
      (generateHTML exampleClock (staticConfig\<lparr>customCSS := Some ''body { background-color: #f0f0f0; }''\<rparr>))\<close>
  using customCSS_appended_verbatim
      [of "staticConfig\<lparr>customCSS := Some ''body { background-color: #f0f0f0; }''\<rparr>"
          "''body { background-color: #f0f0f0; }''" exampleClock, THEN conjunct1, rule_format]
  by simp

text \<open>
  C8. The time string is \<open>HH:MM\<close>, a space and a label: two digits that are the hour
  of the clock reading, a colon, two digits that are its minute; the label is \<open>GMT\<close>
  exactly when the offset of the reading is zero, and \<open>BST\<close> for every other offset.
  The digits are those of \<open>toLocaleTimeString\<close> as modelled above; the label is
  computed by \<open>getCurrentTime\<close>.
\<close>

theorem current_time_format:
  "\<exists>hh mm label.
      getCurrentTime d = hh @ '':'' @ mm @ '' '' @ label
      \<and> length hh = 2 \<and> length mm = 2
      \<and> list_all (\<lambda>c. c \<in> set ''0123456789'') (hh @ mm)
      \<and> (hours d < 24 \<longrightarrow> 10 * (of_char (hh ! 0) - 48) + (of_char (hh ! 1) - 48) = hours d)
      \<and> (minutes d < 60 \<longrightarrow> 10 * (of_char (mm ! 0) - 48) + (of_char (mm ! 1) - 48) = minutes d)
      \<and> (label = ''GMT'' \<longleftrightarrow> timezoneOffset d = 0)
      \<and> (timezoneOffset d \<noteq> 0 \<longrightarrow> label = ''BST'')"
proof (intro exI conjI impI)
  show "getCurrentTime d = twoDigits (hours d) @ '':'' @ twoDigits (minutes d) @ '' ''
      @ (if timezoneOffset d = 0 then ''GMT'' else ''BST'')"
    by (simp add: getCurrentTime_def toLocaleTimeString_def)
  show "length (twoDigits (hours d)) = 2" "length (twoDigits (minutes d)) = 2"
    by (rule twoDigits_length)+
  show "list_all (\<lambda>c. c \<in> set ''0123456789'') (twoDigits (hours d) @ twoDigits (minutes d))"
    using twoDigits_digits [of "hours d"] twoDigits_digits [of "minutes d"]
    by (simp only: list_all_append simp_thms)
  show "10 * (of_char (twoDigits (hours d) ! 0) - 48) + (of_char (twoDigits (hours d) ! 1) - 48)
      = hours d" if "hours d < 24"
    using that by (intro twoDigits_value) simp
  show "10 * (of_char (twoDigits (minutes d) ! 0) - 48)
      + (of_char (twoDigits (minutes d) ! 1) - 48) = minutes d" if "minutes d < 60"
    using that by (intro twoDigits_value) simp
  show "((if timezoneOffset d = 0 then ''GMT'' else ''BST'') = ''GMT'') = (timezoneOffset d = 0)"
    by simp
  show "(if timezoneOffset d = 0 then ''GMT'' else ''BST'') = ''BST''" if "timezoneOffset d \<noteq> 0"
    using that by simp
qed

theorem current_time_format_witness:
  "getCurrentTime exampleClock = ''09:05 GMT''
   \<and> getCurrentTime \<lparr>hours = 14, minutes = 30, timezoneOffset = - 60\<rparr> = ''14:30 BST''"
  using current_time_format [of exampleClock]
    current_time_format [of "\<lparr>hours = 14, minutes = 30, timezoneOffset = - 60\<rparr>"]
  by (simp add: getCurrentTime_def toLocaleTimeString_def twoDigits_def exampleClock_def)

text \<open>
  C9. The page is a function of the configuration and of the clock reading, and the
  reading enters it only as the time string: for every configuration there are a text
  before and a text after the time string, the same for every reading, so two renderings
  of one configuration differ at most in the time string, and they are equal when the
  time strings are.
\<close>

theorem render_depends_only_on_config_and_clock:
  "(\<exists>pre post. \<forall>now. generateHTML now cfg = pre @ getCurrentTime now @ post)
   \<and> (getCurrentTime now = getCurrentTime now' \<longrightarrow> generateHTML now cfg = generateHTML now' cfg)"
proof -
  obtain pre post where split: "\<And>now. generateHTML now cfg = pre @ getCurrentTime now @ post"
    using html_time [of cfg] by blast
  have "generateHTML now cfg = generateHTML now' cfg"
    if "getCurrentTime now = getCurrentTime now'"
    using that by (simp only: split)
  with split show ?thesis
    by blast
qed

theorem render_depends_only_on_config_and_clock_witness:
  "(\<exists>pre post. \<forall>now. generateHTML now staticConfig = pre @ getCurrentTime now @ post)
   \<and> generateHTML exampleClock staticConfig
      = generateHTML \<lparr>hours = 9, minutes = 5, timezoneOffset = 0\<rparr> staticConfig"
  using render_depends_only_on_config_and_clock
    [of staticConfig exampleClock "\<lparr>hours = 9, minutes = 5, timezoneOffset = 0\<rparr>"]
  by (simp add: exampleClock_def)

text \<open>
  C10. Nothing is escaped: the title stands verbatim between the \<open>title\<close> tags, the
  name of every environment verbatim in the first cell of its summary row, and the name
  of every service verbatim in its \<open>service-name\<close> block. A name that contains markup
  is part of the markup of the page, as the witness shows.
\<close>

theorem names_rendered_verbatim:
  \<open>sublist (''<title>'' @ title cfg @ ''</title>'') (generateHTML now cfg)
   \<and> (\<forall>env \<in> set (environments cfg).
        sublist (''<div class="cell">'' @ Environment.name env @ ''</div>'') (generateHTML now cfg)
        \<and> (\<forall>svc \<in> set (Environment.services env).
            sublist (''<div class="service-name">'' @ Service.name svc @ ''</div>'')
              (generateHTML now cfg)))\<close>
proof (intro conjI ballI)
  show \<open>sublist (''<title>'' @ title cfg @ ''</title>'') (generateHTML now cfg)\<close>
    by (rule html_title)
next
  fix env
  assume "env \<in> set (environments cfg)"
  then obtain i where i: "i < length (environments cfg)" "environments cfg ! i = env"
    by (auto simp: in_set_conv_nth)
  show \<open>sublist (''<div class="cell">'' @ Environment.name env @ ''</div>'') (generateHTML now cfg)\<close>
    using html_env_name [OF i(1), of now] by (simp only: i(2))
  fix svc
  assume "svc \<in> set (Environment.services env)"
  then have "svc \<in> set (Environment.services (environments cfg ! i))"
    by (simp only: i(2))
  then show \<open>sublist (''<div class="service-name">'' @ Service.name svc @ ''</div>'')
      (generateHTML now cfg)\<close>
    by (rule html_service_name [OF i(1)])
qed

theorem names_rendered_verbatim_witness:
  \<open>sublist ''<title><b>Status</b></title>''
      (generateHTML exampleClock
        \<lparr>title = ''<b>Status</b>'', logo = '''', currentStatus = noissue,
         environments =
           [\<lparr>Environment.name = ''<i>Production</i>'',
             services = [\<lparr>Service.name = ''<script>alert(1)</script>'', status = noissue\<rparr>]\<rparr>],
         customCSS = None\<rparr>)
   \<and> sublist ''<div class="cell"><i>Production</i></div>''
      (generateHTML exampleClock
        \<lparr>title = ''<b>Status</b>'', logo = '''', currentStatus = noissue,
         environments =
           [\<lparr>Environment.name = ''<i>Production</i>'',
             services = [\<lparr>Service.name = ''<script>alert(1)</script>'', status = noissue\<rparr>]\<rparr>],
         customCSS = None\<rparr>)
   \<and> sublist ''<div class="service-name"><script>alert(1)</script></div>''
      (generateHTML exampleClock
        \<lparr>title = ''<b>Status</b>'', logo = '''', currentStatus = noissue,
         environments =
           [\<lparr>Environment.name = ''<i>Production</i>'',
             services = [\<lparr>Service.name = ''<script>alert(1)</script>'', status = noissue\<rparr>]\<rparr>],
         customCSS = None\<rparr>)\<close>
  using names_rendered_verbatim
    [of "\<lparr>title = ''<b>Status</b>'', logo = '''', currentStatus = noissue,
         environments =
           [\<lparr>Environment.name = ''<i>Production</i>'',
             services = [\<lparr>Service.name = ''<script>alert(1)</script>'', status = noissue\<rparr>]\<rparr>],
         customCSS = None\<rparr>" exampleClock]
  by simp

end
